theory Spec2Isabelle
  imports Complex_Main "HOL-Library.AList"
begin

section \<open>Errors\<close>

text \<open>
  Every exception the modelled code can raise is a value. The constructors carry the
  name of the Python exception; \<open>StoreError\<close> and \<open>PlayError\<close> stand for whatever the
  external store and player raise. \<open>NotModelled\<close> marks the few conversions of dynamic
  values whose Python result lies outside the value type used here.
\<close>

datatype error =
    ValueError
  | KeyError
  | TypeError
  | ZoneInfoNotFoundError
  | StoreError
  | PlayError
  | NotModelled

section \<open>Dates, instants and time zones\<close>

text \<open>
  A calendar date is its proleptic Gregorian ordinal (\<open>date.toordinal()\<close>), so that
  \<open>date + timedelta(days=k)\<close> is addition and the comparison of dates is that of
  integers. An instant is a number of microseconds on the UTC time line, counted from
  midnight of ordinal 0; a wall-clock reading in a zone is counted the same way.
  The bounds of Python's \<open>datetime\<close> (years 1 to 9999) are not part of the model.
\<close>

type_synonym date = int
type_synonym instant = int

definition us_per_day :: int where
  "us_per_day = 86400000000"

text \<open>\<open>timedelta(seconds=0.5)\<close>\<close>

definition grace :: int where
  "grace = 500000"

text \<open>\<open>date.weekday()\<close>: Monday is 0, and ordinal 1 is a Monday.\<close>

definition weekday :: "date \<Rightarrow> int" where
  "weekday d = (d + 6) mod 7"

text \<open>
  A \<open>ZoneInfo\<close> object is taken by what the two conversions of \<open>next_occurrence\<close> ask
  of it: the offset in force at a UTC instant (\<open>astimezone(tz)\<close> of an aware
  datetime), and the offset it reports for a wall-clock reading with \<open>fold = 0\<close>
  (\<open>astimezone(UTC)\<close> of a datetime built by \<open>datetime.combine\<close>). Offsets are in
  microseconds.
\<close>

record zone =
  utcoffset_at :: "instant \<Rightarrow> int"
  utcoffset_wall :: "int \<Rightarrow> int"

definition utc :: zone where
  "utc = \<lparr>utcoffset_at = (\<lambda>_. 0), utcoffset_wall = (\<lambda>_. 0)\<rparr>"

definition fixed_zone :: "int \<Rightarrow> zone" where
  "fixed_zone off = \<lparr>utcoffset_at = (\<lambda>_. off), utcoffset_wall = (\<lambda>_. off)\<rparr>"

text \<open>\<open>now.astimezone(tz).date()\<close>\<close>

definition local_date :: "zone \<Rightarrow> instant \<Rightarrow> date" where
  "local_date z t = (t + utcoffset_at z t) div us_per_day"

section \<open>Records\<close>

record music_settings =
  source :: string
  resource :: "string option"
  tone_frequency_hz :: int
  tone_duration_seconds :: int
  extra :: "(string \<times> string) list"

text \<open>\<open>MusicSettings.tone()\<close> with its default arguments.\<close>

definition tone :: music_settings where
  "tone = \<lparr>source = ''tone'', resource = None, tone_frequency_hz = 440,
            tone_duration_seconds = 30, extra = []\<rparr>"

record alarm =
  alarm_id :: string
  label :: string
  hour :: int
  minute :: int
  second :: int
  timezone :: string
  repeat_days :: "int list"
  start_date :: "date option"
  music :: music_settings
  enabled :: bool
  volume :: real

section \<open>The occurrence calculator\<close>

text \<open>The range check of \<open>time(hour, minute, second, tzinfo=tz)\<close>.\<close>

definition time_ok :: "alarm \<Rightarrow> bool" where
  "time_ok a \<longleftrightarrow> 0 \<le> hour a \<and> hour a \<le> 23 \<and> 0 \<le> minute a \<and> minute a \<le> 59
     \<and> 0 \<le> second a \<and> second a \<le> 59"

definition time_of_day :: "alarm \<Rightarrow> int" where
  "time_of_day a = ((hour a * 60 + minute a) * 60 + second a) * 1000000"

text \<open>
  The inner function \<open>combine\<close>: the wall-clock reading of the alarm's time on the
  target date, moved to UTC by the offset the zone reports for that reading.
\<close>

definition combine :: "zone \<Rightarrow> alarm \<Rightarrow> date \<Rightarrow> instant" where
  "combine z a target_date =
     (let localized = target_date * us_per_day + time_of_day a
      in localized - utcoffset_wall z localized)"

text \<open>The loop \<open>for offset in range(0, 7)\<close>, over the offsets still to visit.\<close>

fun scan_week :: "zone \<Rightarrow> alarm \<Rightarrow> instant \<Rightarrow> date \<Rightarrow> date \<Rightarrow> nat list \<Rightarrow> instant option" where
  "scan_week z a now today candidate_date [] = None"
| "scan_week z a now today candidate_date (offset # rest) =
     (let possible_date = today + int offset in
      if possible_date < candidate_date then scan_week z a now today candidate_date rest
      else if weekday possible_date \<notin> set (repeat_days a)
        then scan_week z a now today candidate_date rest
      else
        let occurrence = combine z a possible_date in
        if occurrence > now + grace then Some occurrence
        else scan_week z a now today candidate_date rest)"

text \<open>
  \<open>min(self.repeat_days)\<close>. The only call is guarded by \<open>repeat_days \<noteq> []\<close>, so the
  equation for the empty list is never used.
\<close>

fun min_days :: "int list \<Rightarrow> int" where
  "min_days [] = 0"
| "min_days [d] = d"
| "min_days (d # e # ds) = min d (min_days (e # ds))"

text \<open>
  \<open>Alarm.next_occurrence\<close>. The first argument is the zone database
  (\<open>ZoneInfo(name)\<close>, which raises for an unknown name); \<open>now\<close> is an aware datetime,
  given as its UTC instant. \<open>Inr None\<close> is the Python result \<open>None\<close>.
\<close>

definition next_occurrence ::
    "(string \<Rightarrow> zone option) \<Rightarrow> alarm \<Rightarrow> instant \<Rightarrow> error + instant option" where
  "next_occurrence zoneinfo a now =
     (case zoneinfo (timezone a) of
        None \<Rightarrow> Inl ZoneInfoNotFoundError
      | Some tz \<Rightarrow>
          if \<not> time_ok a then Inl ValueError
          else if \<not> enabled a then Inr None
          else
            let today = local_date tz now;
                candidate_date = (case start_date a of Some d \<Rightarrow> d | None \<Rightarrow> today)
            in
            if start_date a \<noteq> None \<and> candidate_date < today \<and> repeat_days a = []
              then Inr None
            else if repeat_days a \<noteq> [] then
              (case scan_week tz a now today candidate_date [0 ..< 7] of
                 Some occurrence \<Rightarrow> Inr (Some occurrence)
               | None \<Rightarrow>
                   let next_day = min_days (repeat_days a);
                       today_idx = weekday today;
                       delta = (if (next_day - today_idx) mod 7 = 0 then 7
                                else (next_day - today_idx) mod 7)
                   in Inr (Some (combine tz a (today + delta))))
            else
              let occurrence = combine tz a candidate_date in
              if occurrence \<le> now + grace then
                (if start_date a \<noteq> None then Inr None
                 else Inr (Some (combine tz a (today + 1))))
              else Inr (Some occurrence))"

section \<open>Dynamic values and the conversions of the decoder\<close>

text \<open>
  The payload of \<open>to_dict\<close> and \<open>from_dict\<close> is a \<open>Dict[str, object]\<close>. Its values are
  the values a decoded JSON document can hold; a dict is an association list in
  insertion order, with string keys.
\<close>

datatype pyval =
    PNone
  | PBool bool
  | PInt int
  | PFloat real
  | PStr string
  | PList "pyval list"
  | PDict "(string \<times> pyval) list"

text \<open>
  Behaviour of the standard library that the decoder calls and that is not written out
  here: \<open>repr\<close> of numbers and containers, the parsers behind \<open>int(str)\<close> and
  \<open>float(str)\<close> (\<open>None\<close> where they raise \<open>ValueError\<close>), and the ISO format of
  dates with its parser.
\<close>

record pylib =
  repr :: "pyval \<Rightarrow> string"
  int_of_str :: "string \<Rightarrow> int option"
  float_of_str :: "string \<Rightarrow> real option"
  isoformat :: "date \<Rightarrow> string"
  fromisoformat :: "string \<Rightarrow> date option"

text \<open>\<open>payload.get(key, default)\<close>\<close>

definition get :: "(string \<times> pyval) list \<Rightarrow> string \<Rightarrow> pyval \<Rightarrow> pyval" where
  "get payload key dflt = (case map_of payload key of Some v \<Rightarrow> v | None \<Rightarrow> dflt)"

text \<open>\<open>str(v)\<close>\<close>

fun py_str :: "pylib \<Rightarrow> pyval \<Rightarrow> string" where
  "py_str L (PStr s) = s"
| "py_str L PNone = ''None''"
| "py_str L (PBool b) = (if b then ''True'' else ''False'')"
| "py_str L v = repr L v"

text \<open>\<open>int(v)\<close>: a float is truncated towards zero.\<close>

fun py_int :: "pylib \<Rightarrow> pyval \<Rightarrow> error + int" where
  "py_int L (PInt n) = Inr n"
| "py_int L (PBool b) = Inr (if b then 1 else 0)"
| "py_int L (PFloat r) = Inr (if 0 \<le> r then \<lfloor>r\<rfloor> else \<lceil>r\<rceil>)"
| "py_int L (PStr s) = (case int_of_str L s of None \<Rightarrow> Inl ValueError | Some n \<Rightarrow> Inr n)"
| "py_int L v = Inl TypeError"

text \<open>\<open>float(v)\<close>; floats are modelled by the reals they denote.\<close>

fun py_float :: "pylib \<Rightarrow> pyval \<Rightarrow> error + real" where
  "py_float L (PFloat r) = Inr r"
| "py_float L (PInt n) = Inr (of_int n)"
| "py_float L (PBool b) = Inr (if b then 1 else 0)"
| "py_float L (PStr s) = (case float_of_str L s of None \<Rightarrow> Inl ValueError | Some r \<Rightarrow> Inr r)"
| "py_float L v = Inl TypeError"

text \<open>\<open>bool(v)\<close>, the truth value also used by \<open>if v\<close>.\<close>

fun py_bool :: "pyval \<Rightarrow> bool" where
  "py_bool PNone = False"
| "py_bool (PBool b) = b"
| "py_bool (PInt n) = (n \<noteq> 0)"
| "py_bool (PFloat r) = (r \<noteq> 0)"
| "py_bool (PStr s) = (s \<noteq> [])"
| "py_bool (PList vs) = (vs \<noteq> [])"
| "py_bool (PDict d) = (d \<noteq> [])"

text \<open>Iteration over a value: a dict yields its keys, a string its characters.\<close>

fun py_iter :: "pyval \<Rightarrow> error + pyval list" where
  "py_iter (PList vs) = Inr vs"
| "py_iter (PStr s) = Inr (map (\<lambda>c. PStr [c]) s)"
| "py_iter (PDict d) = Inr (map (\<lambda>kv. PStr (fst kv)) d)"
| "py_iter v = Inl TypeError"

text \<open>
  \<open>dict(v)\<close>. A non-empty sequence is converted element by element into key-value
  pairs by Python; that conversion is outside the model.
\<close>

fun py_dict :: "pyval \<Rightarrow> error + (string \<times> pyval) list" where
  "py_dict (PDict d) = Inr d"
| "py_dict (PList []) = Inr []"
| "py_dict (PStr []) = Inr []"
| "py_dict (PList (v # vs)) = Inl NotModelled"
| "py_dict (PStr (c # cs)) = Inl NotModelled"
| "py_dict v = Inl TypeError"

definition and_then :: "error + 'a \<Rightarrow> ('a \<Rightarrow> error + 'b) \<Rightarrow> error + 'b" where
  "and_then r f = (case r of Inl e \<Rightarrow> Inl e | Inr x \<Rightarrow> f x)"

section \<open>MusicSettings: encoding and decoding\<close>

definition MusicSettings_to_dict :: "music_settings \<Rightarrow> (string \<times> pyval) list" where
  "MusicSettings_to_dict m =
     [(''source'', PStr (source m)),
      (''resource'', (case resource m of None \<Rightarrow> PNone | Some r \<Rightarrow> PStr r)),
      (''tone_frequency_hz'', PInt (tone_frequency_hz m)),
      (''tone_duration_seconds'', PInt (tone_duration_seconds m)),
      (''extra'', PDict (map (\<lambda>kv. (fst kv, PStr (snd kv))) (extra m)))]"

text \<open>
  The comprehension \<open>{str(k): str(v) for k, v in d.items()}\<close>: the keys of the model's
  dicts are strings already; a repeated key keeps its place and takes the later value.
\<close>

definition str_items :: "pylib \<Rightarrow> (string \<times> pyval) list \<Rightarrow> (string \<times> string) list" where
  "str_items L d = fold (\<lambda>kv acc. AList.update (fst kv) (py_str L (snd kv)) acc) d []"

text \<open>
  The field \<open>resource\<close> is stored as found, without conversion. The record holds a
  string or \<open>None\<close>; any other value is outside the model.
\<close>

fun resource_of :: "pyval \<Rightarrow> error + string option" where
  "resource_of PNone = Inr None"
| "resource_of (PStr s) = Inr (Some s)"
| "resource_of v = Inl NotModelled"

definition MusicSettings_from_dict ::
    "pylib \<Rightarrow> (string \<times> pyval) list \<Rightarrow> error + music_settings" where
  "MusicSettings_from_dict L payload =
     (let src = py_str L (get payload ''source'' PNone) in
      and_then (resource_of (get payload ''resource'' PNone)) (\<lambda>res.
      and_then (py_int L (get payload ''tone_frequency_hz'' (PInt 440))) (\<lambda>freq.
      and_then (py_int L (get payload ''tone_duration_seconds'' (PInt 30))) (\<lambda>dur.
      and_then (py_dict (get payload ''extra'' (PDict []))) (\<lambda>ex.
      Inr \<lparr>source = src, resource = res, tone_frequency_hz = freq,
           tone_duration_seconds = dur, extra = str_items L ex\<rparr>)))))"

section \<open>Alarm: construction, encoding and decoding\<close>

text \<open>The loop of \<open>_normalize_days\<close>; \<open>seen\<close> holds the elements of \<open>normalized\<close>.\<close>

fun normalize_loop :: "int list \<Rightarrow> int list \<Rightarrow> error + int list" where
  "normalize_loop [] normalized = Inr normalized"
| "normalize_loop (day # days) normalized =
     (if day < 0 \<or> day > 6 then Inl ValueError
      else if day \<notin> set normalized then normalize_loop days (normalized @ [day])
      else normalize_loop days normalized)"

definition normalize_days :: "int list \<Rightarrow> error + int list" where
  "normalize_days days =
     (if days = [] then Inr []
      else and_then (normalize_loop days []) (\<lambda>normalized. Inr (sort normalized)))"

text \<open>
  The dataclass constructor with \<open>__post_init__\<close>: the argument holds the field values
  passed to \<open>Alarm(...)\<close>.
\<close>

definition post_init :: "alarm \<Rightarrow> error + alarm" where
  "post_init a =
     (if alarm_id a = [] then Inl ValueError
      else if \<not> time_ok a then Inl ValueError
      else and_then (normalize_days (repeat_days a)) (\<lambda>days.
        if volume a \<le> 0 then Inl ValueError
        else Inr (a\<lparr>repeat_days := days,
                    label := (if label a = [] then alarm_id a else label a)\<rparr>)))"

definition Alarm_to_dict :: "pylib \<Rightarrow> alarm \<Rightarrow> (string \<times> pyval) list" where
  "Alarm_to_dict L a =
     [(''id'', PStr (alarm_id a)),
      (''label'', PStr (label a)),
      (''hour'', PInt (hour a)),
      (''minute'', PInt (minute a)),
      (''second'', PInt (second a)),
      (''timezone'', PStr (timezone a)),
      (''repeat_days'', PList (map PInt (repeat_days a))),
      (''start_date'', (case start_date a of None \<Rightarrow> PNone | Some d \<Rightarrow> PStr (isoformat L d))),
      (''music'', PDict (MusicSettings_to_dict (music a))),
      (''enabled'', PBool (enabled a)),
      (''volume'', PFloat (volume a))]"

text \<open>\<open>date.fromisoformat(v) if v else None\<close>\<close>

definition parse_start_date :: "pylib \<Rightarrow> pyval \<Rightarrow> error + date option" where
  "parse_start_date L v =
     (if py_bool v then
        (case v of
           PStr s \<Rightarrow> (case fromisoformat L s of None \<Rightarrow> Inl ValueError | Some d \<Rightarrow> Inr (Some d))
         | _ \<Rightarrow> Inl TypeError)
      else Inr None)"

text \<open>\<open>tuple(int(value) for value in ... if value is not None)\<close>\<close>

fun int_items :: "pylib \<Rightarrow> pyval list \<Rightarrow> error + int list" where
  "int_items L [] = Inr []"
| "int_items L (v # vs) =
     (if v = PNone then int_items L vs
      else and_then (py_int L v) (\<lambda>n. and_then (int_items L vs) (\<lambda>ns. Inr (n # ns))))"

definition Alarm_from_dict :: "pylib \<Rightarrow> (string \<times> pyval) list \<Rightarrow> error + alarm" where
  "Alarm_from_dict L payload =
     and_then (parse_start_date L (get payload ''start_date'' PNone)) (\<lambda>start_date_parsed.
     (case map_of payload ''id'' of
        None \<Rightarrow> Inl KeyError
      | Some idv \<Rightarrow>
          and_then (py_int L (get payload ''hour'' (PInt 0))) (\<lambda>h.
          and_then (py_int L (get payload ''minute'' (PInt 0))) (\<lambda>mi.
          and_then (py_int L (get payload ''second'' (PInt 0))) (\<lambda>se.
          and_then (py_iter (get payload ''repeat_days'' (PList []))) (\<lambda>vs.
          and_then (int_items L vs) (\<lambda>days.
          and_then (py_dict (get payload ''music'' (PDict []))) (\<lambda>md.
          and_then (MusicSettings_from_dict L md) (\<lambda>mu.
          and_then (py_float L (get payload ''volume'' (PFloat 1))) (\<lambda>vol.
          post_init
            \<lparr>alarm_id = py_str L idv,
             label = py_str L (get payload ''label'' idv),
             hour = h, minute = mi, second = se,
             timezone = py_str L (get payload ''timezone'' (PStr ''UTC'')),
             repeat_days = days,
             start_date = start_date_parsed,
             music = mu,
             enabled = py_bool (get payload ''enabled'' (PBool True)),
             volume = vol\<rparr>))))))))))"

text \<open>
  What the constructor establishes, and what the scheduler relies on: the invariants of
  an \<open>Alarm\<close>, together with the well-formedness of the \<open>extra\<close> dict (no key twice).
\<close>

definition valid_alarm :: "alarm \<Rightarrow> bool" where
  "valid_alarm a \<longleftrightarrow>
     alarm_id a \<noteq> [] \<and> label a \<noteq> [] \<and> time_ok a
     \<and> sorted (repeat_days a) \<and> distinct (repeat_days a)
     \<and> list_all (\<lambda>d. 0 \<le> d \<and> d \<le> 6) (repeat_days a)
     \<and> 0 < volume a
     \<and> distinct (map fst (extra (music a)))"

section \<open>The scheduler\<close>

text \<open>
  \<open>Alarm\<close> objects are mutable and shared: the live mapping, every snapshot and the
  caller hold references to the same objects, and the scheduler writes the field
  \<open>enabled\<close> in place. So objects live in a store, \<open>objects\<close>, and a reference is an
  address. The dicts that map alarm ids to objects are objects too (\<open>snapshot\<close> makes a
  new one, \<open>start\<close> rebinds \<open>self._alarms\<close> to a new one): they live in \<open>dicts\<close>, and
  \<open>next_dict\<close> is the first address not yet in use. \<open>alarms\<close> is the address held by
  \<open>self._alarms\<close>.

  \<open>tasks\<close> is \<open>self._tasks\<close>; of an \<open>asyncio.Task\<close> only whether it still runs is kept.
  \<open>stored\<close> is what the last successful \<open>save\<close> wrote and \<open>save_calls\<close> counts the
  calls of \<open>save\<close>. Every method body runs under \<open>self._lock\<close> and is one step here.
\<close>

datatype task = Running | Finished

record state =
  objects :: "nat \<Rightarrow> alarm"
  dicts :: "nat \<Rightarrow> (string \<times> nat) list"
  next_dict :: nat
  alarms :: nat
  tasks :: "(string \<times> task) list"
  started :: bool
  stored :: "alarm list"
  save_calls :: nat

text \<open>\<open>AlarmScheduler.__init__\<close>, given the objects that exist and the store's content.\<close>

definition init :: "(nat \<Rightarrow> alarm) \<Rightarrow> alarm list \<Rightarrow> state" where
  "init objs persisted =
     \<lparr>objects = objs, dicts = (\<lambda>_. []), next_dict = 1, alarms = 0, tasks = [],
      started = False, stored = persisted, save_calls = 0\<rparr>"

text \<open>The dict \<open>self._alarms\<close> refers to, and a write to it in place.\<close>

definition live :: "state \<Rightarrow> (string \<times> nat) list" where
  "live s = dicts s (alarms s)"

definition set_live :: "(string \<times> nat) list \<Rightarrow> state \<Rightarrow> state" where
  "set_live d s = s\<lparr>dicts := (dicts s)(alarms s := d)\<rparr>"

text \<open>\<open>alarm.enabled = b\<close> on the object at address \<open>r\<close>.\<close>

definition set_enabled :: "nat \<Rightarrow> bool \<Rightarrow> state \<Rightarrow> state" where
  "set_enabled r b s = s\<lparr>objects := (objects s)(r := (objects s r)\<lparr>enabled := b\<rparr>)\<rparr>"

text \<open>
  \<open>await self._store.save(self._alarms.values())\<close>. Whether the store succeeds is the
  store's affair: it is the first argument. A failure is the exception it raises.
\<close>

definition save :: "bool \<Rightarrow> state \<Rightarrow> error option \<times> state" where
  "save ok s =
     (let s' = s\<lparr>save_calls := Suc (save_calls s)\<rparr> in
      if ok then (None, s'\<lparr>stored := map (\<lambda>kv. objects s (snd kv)) (live s)\<rparr>)
      else (Some StoreError, s'))"

text \<open>\<open>self._tasks[alarm_id] = asyncio.create_task(self._run_alarm(alarm_id))\<close>\<close>

definition create_task :: "string \<Rightarrow> state \<Rightarrow> state" where
  "create_task aid s = s\<lparr>tasks := AList.update aid Running (tasks s)\<rparr>"

text \<open>\<open>_cancel\<close>: the entry is popped and the task, if any, cancelled and awaited.\<close>

definition cancel :: "string \<Rightarrow> state \<Rightarrow> state" where
  "cancel aid s = s\<lparr>tasks := AList.delete aid (tasks s)\<rparr>"

definition reschedule :: "string \<Rightarrow> nat \<Rightarrow> state \<Rightarrow> state" where
  "reschedule aid r s =
     (let s1 = cancel aid s in
      if started s1 \<and> enabled (objects s1 r) then create_task aid s1 else s1)"

text \<open>The comprehension \<open>{alarm.id: alarm for alarm in alarms}\<close>, filling a dict.\<close>

fun by_id :: "(nat \<Rightarrow> alarm) \<Rightarrow> nat list \<Rightarrow> (string \<times> nat) list \<Rightarrow> (string \<times> nat) list" where
  "by_id objs [] d = d"
| "by_id objs (r # rs) d = by_id objs rs (AList.update (alarm_id (objs r)) r d)"

text \<open>The loop of \<open>start\<close> that creates a task for every enabled loaded alarm.\<close>

fun spawn_enabled :: "nat list \<Rightarrow> state \<Rightarrow> state" where
  "spawn_enabled [] s = s"
| "spawn_enabled (r # rs) s =
     spawn_enabled rs
       (if enabled (objects s r) then create_task (alarm_id (objects s r)) s else s)"

text \<open>
  \<open>start\<close>. The argument is what \<open>self._store.load()\<close> returns: the references of the
  loaded objects, or the exception.
\<close>

definition start :: "error + nat list \<Rightarrow> state \<Rightarrow> error option \<times> state" where
  "start loaded s =
     (if started s then (None, s)
      else case loaded of
        Inl e \<Rightarrow> (Some e, s)
      | Inr refs \<Rightarrow>
          (None,
           spawn_enabled refs
             (s\<lparr>dicts := (dicts s)(next_dict s := by_id (objects s) refs []),
                alarms := next_dict s, next_dict := Suc (next_dict s),
                started := True\<rparr>)))"

definition stop :: "state \<Rightarrow> state" where
  "stop s = s\<lparr>tasks := [], started := False\<rparr>"

text \<open>
  The mutating operations. Each returns the exception raised, if any, and the state it
  leaves behind; the first argument is the outcome of the store's \<open>save\<close>.
\<close>

definition add_alarm :: "bool \<Rightarrow> nat \<Rightarrow> state \<Rightarrow> error option \<times> state" where
  "add_alarm ok r s =
     (let aid = alarm_id (objects s r) in
      if aid \<in> fst ` set (live s) then (Some ValueError, s)
      else
        let s1 = set_live (AList.update aid r (live s)) s in
        case save ok s1 of
          (Some e, s2) \<Rightarrow> (Some e, s2)
        | (None, s2) \<Rightarrow>
            if started s2 \<and> enabled (objects s2 r) then (None, create_task aid s2)
            else (None, s2))"

definition update_alarm :: "bool \<Rightarrow> nat \<Rightarrow> state \<Rightarrow> error option \<times> state" where
  "update_alarm ok r s =
     (let aid = alarm_id (objects s r) in
      if aid \<notin> fst ` set (live s) then (Some KeyError, s)
      else
        let s1 = set_live (AList.update aid r (live s)) s in
        case save ok s1 of
          (Some e, s2) \<Rightarrow> (Some e, s2)
        | (None, s2) \<Rightarrow> (None, reschedule aid r s2))"

definition remove_alarm :: "bool \<Rightarrow> string \<Rightarrow> state \<Rightarrow> error option \<times> state" where
  "remove_alarm ok aid s =
     (if aid \<notin> fst ` set (live s) then (Some KeyError, s)
      else
        let s1 = set_live (AList.delete aid (live s)) s in
        case save ok s1 of
          (Some e, s2) \<Rightarrow> (Some e, s2)
        | (None, s2) \<Rightarrow> (None, cancel aid s2))"

definition enable :: "bool \<Rightarrow> string \<Rightarrow> state \<Rightarrow> error option \<times> state" where
  "enable ok aid s =
     (case map_of (live s) aid of
        None \<Rightarrow> (Some KeyError, s)
      | Some r \<Rightarrow>
          if enabled (objects s r) then (None, s)
          else
            (case save ok (set_enabled r True s) of
               (Some e, s2) \<Rightarrow> (Some e, s2)
             | (None, s2) \<Rightarrow> if started s2 then (None, create_task aid s2) else (None, s2)))"

definition disable :: "bool \<Rightarrow> string \<Rightarrow> state \<Rightarrow> error option \<times> state" where
  "disable ok aid s =
     (case map_of (live s) aid of
        None \<Rightarrow> (Some KeyError, s)
      | Some r \<Rightarrow>
          if \<not> enabled (objects s r) then (None, s)
          else
            (case save ok (set_enabled r False s) of
               (Some e, s2) \<Rightarrow> (Some e, s2)
             | (None, s2) \<Rightarrow> (None, cancel aid s2)))"

text \<open>\<open>trigger_now\<close>; the argument is the outcome of \<open>self._players.play(alarm)\<close>.\<close>

definition trigger_now :: "bool \<Rightarrow> string \<Rightarrow> state \<Rightarrow> error option \<times> state" where
  "trigger_now play_ok aid s =
     (case map_of (live s) aid of
        None \<Rightarrow> (Some KeyError, s)
      | Some r \<Rightarrow> if play_ok then (None, s) else (Some PlayError, s))"

text \<open>\<open>snapshot\<close>: \<open>dict(self._alarms)\<close> is a new dict with the same items.\<close>

definition snapshot :: "state \<Rightarrow> nat \<times> state" where
  "snapshot s =
     (next_dict s,
      s\<lparr>dicts := (dicts s)(next_dict s := live s), next_dict := Suc (next_dict s)\<rparr>)"

text \<open>
  The timer task of an alarm, \<open>_run_alarm\<close>: one turn of its loop, from the reading of
  the live alarm to the end of the turn, for the task registered under \<open>aid\<close>. The
  arguments are the clock reading and the outcomes of the player and of the store. The
  task ends (\<open>finish\<close>) by \<open>return\<close> or by an exception other than a cancellation; a
  cancellation is the step \<open>cancel\<close> of the operation that cancels. The task never
  touches \<open>self._tasks\<close>, so its entry stays where it is.
\<close>

definition finish :: "string \<Rightarrow> state \<Rightarrow> state" where
  "finish aid s = s\<lparr>tasks := AList.update aid Finished (tasks s)\<rparr>"

definition run_alarm ::
    "(string \<Rightarrow> zone option) \<Rightarrow> instant \<Rightarrow> bool \<Rightarrow> bool \<Rightarrow> string \<Rightarrow> state \<Rightarrow> state" where
  "run_alarm zoneinfo now_utc play_ok save_ok aid s =
     (if map_of (tasks s) aid \<noteq> Some Running then s
      else case map_of (live s) aid of
        None \<Rightarrow> finish aid s
      | Some r \<Rightarrow>
          if \<not> enabled (objects s r) then finish aid s
          else
            (case next_occurrence zoneinfo (objects s r) now_utc of
               Inl e \<Rightarrow> finish aid s
             | Inr None \<Rightarrow> finish aid (snd (save save_ok (set_enabled r False s)))
             | Inr (Some next_time) \<Rightarrow>
                 if \<not> play_ok then finish aid s
                 else if repeat_days (objects s r) = []
                   then finish aid (snd (save save_ok (set_enabled r False s)))
                 else s))"

text \<open>Everything that can happen to a scheduler, and a run of such events.\<close>

datatype event =
    Start "error + nat list"
  | Stop
  | AddAlarm bool nat
  | UpdateAlarm bool nat
  | RemoveAlarm bool string
  | Enable bool string
  | Disable bool string
  | TriggerNow bool string
  | Snapshot
  | Timer instant bool bool string

fun exec :: "(string \<Rightarrow> zone option) \<Rightarrow> event \<Rightarrow> state \<Rightarrow> state" where
  "exec zi (Start loaded) s = snd (start loaded s)"
| "exec zi Stop s = stop s"
| "exec zi (AddAlarm ok r) s = snd (add_alarm ok r s)"
| "exec zi (UpdateAlarm ok r) s = snd (update_alarm ok r s)"
| "exec zi (RemoveAlarm ok aid) s = snd (remove_alarm ok aid s)"
| "exec zi (Enable ok aid) s = snd (enable ok aid s)"
| "exec zi (Disable ok aid) s = snd (disable ok aid s)"
| "exec zi (TriggerNow play_ok aid) s = snd (trigger_now play_ok aid s)"
| "exec zi Snapshot s = snd (snapshot s)"
| "exec zi (Timer now_utc play_ok save_ok aid) s = run_alarm zi now_utc play_ok save_ok aid s"

fun run :: "(string \<Rightarrow> zone option) \<Rightarrow> event list \<Rightarrow> state \<Rightarrow> state" where
  "run zi [] s = s"
| "run zi (e # es) s = run zi es (exec zi e s)"


section \<open>Invariants of the scheduler\<close>

text \<open>
  The live dict has no key twice and files every object under its own id.
\<close>

definition keys_agree :: "state \<Rightarrow> bool" where
  "keys_agree s \<longleftrightarrow>
     distinct (map fst (live s))
     \<and> (\<forall>kv \<in> set (live s). alarm_id (objects s (snd kv)) = fst kv)"

text \<open>
  The link between the two mappings: while started, every key of the task mapping is a
  key of the alarm mapping and every enabled alarm has an entry in the task mapping;
  while stopped, the task mapping is empty.
\<close>

definition task_inv :: "state \<Rightarrow> bool" where
  "task_inv s \<longleftrightarrow>
     (if started s then
        set (map fst (tasks s)) \<subseteq> set (map fst (live s))
        \<and> (\<forall>kv \<in> set (live s).
              enabled (objects s (snd kv)) \<longrightarrow> fst kv \<in> set (map fst (tasks s)))
      else tasks s = [])"


definition sched_inv :: "state \<Rightarrow> bool" where
  "sched_inv s \<longleftrightarrow> keys_agree s \<and> task_inv s"

text \<open>The address in \<open>self._alarms\<close> is in use.\<close>

definition heap_ok :: "state \<Rightarrow> bool" where
  "heap_ok s \<longleftrightarrow> alarms s < next_dict s"

section \<open>Example values\<close>

text \<open>A zone database that knows \<open>UTC\<close> only.\<close>

definition utc_only :: "string \<Rightarrow> zone option" where
  "utc_only name = (if name = ''UTC'' then Some utc else None)"

text \<open>
  The alarms of the repository's tests. 738886 is \<open>date(2024, 1, 1).toordinal()\<close>, a
  Monday; 738900 is 15 January 2024.
\<close>

definition morning :: alarm where
  "morning = \<lparr>alarm_id = ''morning'', label = ''Morning Alarm'', hour = 9, minute = 30,
     second = 0, timezone = ''UTC'', repeat_days = [], start_date = None, music = tone,
     enabled = True, volume = 1\<rparr>"

definition doctor :: alarm where
  "doctor = \<lparr>alarm_id = ''doctor'', label = ''Doctor'', hour = 7, minute = 0,
     second = 0, timezone = ''UTC'', repeat_days = [], start_date = Some 738886,
     music = tone, enabled = True, volume = 1\<rparr>"

text \<open>An alarm for every Tuesday at midnight, and one for Mondays from 15 January on.\<close>

definition midnight :: alarm where
  "midnight = \<lparr>alarm_id = ''midnight'', label = ''Midnight'', hour = 0, minute = 0,
     second = 0, timezone = ''UTC'', repeat_days = [1], start_date = None, music = tone,
     enabled = True, volume = 1\<rparr>"

definition course :: alarm where
  "course = \<lparr>alarm_id = ''course'', label = ''Course'', hour = 7, minute = 30,
     second = 0, timezone = ''UTC'', repeat_days = [0], start_date = Some 738900,
     music = tone, enabled = True, volume = 1\<rparr>"

text \<open>
  A library instance for the examples: its date format knows 1 January 2024, its number
  parsers accept nothing.
\<close>

definition stub_lib :: pylib where
  "stub_lib =
     \<lparr>repr = (\<lambda>_. ''?''), int_of_str = (\<lambda>_. None), float_of_str = (\<lambda>_. None),
      isoformat = (\<lambda>d. if d = 738886 then ''2024-01-01'' else ''0001-01-01''),
      fromisoformat = (\<lambda>s. if s = ''2024-01-01'' then Some 738886 else None)\<rparr>"

text \<open>An alarm with a \<open>start_date\<close> and a non-empty \<open>extra\<close> map.\<close>

definition radio :: alarm where
  "radio = \<lparr>alarm_id = ''radio'', label = ''Radio'', hour = 6, minute = 45,
     second = 0, timezone = ''Europe/Paris'', repeat_days = [1, 3],
     start_date = Some 738886,
     music = \<lparr>source = ''app'', resource = Some ''radio-player'',
              tone_frequency_hz = 440, tone_duration_seconds = 60,
              extra = [(''station'', ''jazz''), (''device'', ''kitchen'')]\<rparr>,
     enabled = False, volume = 1 / 2\<rparr>"

text \<open>A stored record with most fields absent, and the alarm it decodes to.\<close>

definition sparse_record :: "(string \<times> pyval) list" where
  "sparse_record =
     [(''id'', PStr ''nap''), (''hour'', PInt 13), (''minute'', PInt 15),
      (''music'', PDict [(''source'', PStr ''tone'')])]"

definition nap :: alarm where
  "nap = \<lparr>alarm_id = ''nap'', label = ''nap'', hour = 13, minute = 15,
     second = 0, timezone = ''UTC'', repeat_days = [], start_date = None, music = tone,
     enabled = True, volume = 1\<rparr>"

text \<open>
  The one-shot alarm of the scheduler tests, set for 10:00:02, and a scheduler that was
  started on an empty store and then given this alarm (the object at address 0).
\<close>

definition wake :: alarm where
  "wake = \<lparr>alarm_id = ''wake'', label = ''Wake'', hour = 10, minute = 0,
     second = 2, timezone = ''UTC'', repeat_days = [], start_date = None, music = tone,
     enabled = True, volume = 1\<rparr>"

definition waiting :: state where
  "waiting =
     \<lparr>objects = (\<lambda>_. wake), dicts = (\<lambda>_. [])(1 := [(''wake'', 0)]), next_dict = 2,
      alarms = 1, tasks = [(''wake'', Running)], started = True, stored = [wake],
      save_calls = 1\<rparr>"

section \<open>Properties of the occurrence calculator\<close>

lemmas calc_defs = time_ok_def local_date_def us_per_day_def weekday_def combine_def
  time_of_day_def grace_def

text \<open>
  What the seven-day scan returns is the alarm's time on one of the visited dates, a date
  not before the candidate date, on a weekday of \<open>repeat_days\<close>, and later than
  \<open>now + 0.5s\<close>.
\<close>

lemma scan_week_sound:
  "scan_week z a now today cand offs = Some occ \<Longrightarrow>
     \<exists>off \<in> set offs. occ = combine z a (today + int off) \<and> cand \<le> today + int off
        \<and> weekday (today + int off) \<in> set (repeat_days a) \<and> now + grace < occ"
  by (induction offs) (auto simp: Let_def split: if_splits)

text \<open>
  The date the fallback picks falls on the smallest repeat day, which is a weekday of
  \<open>repeat_days\<close>.
\<close>

lemma min_days_in: "ds \<noteq> [] \<Longrightarrow> min_days ds \<in> set ds"
  by (induction ds rule: min_days.induct) (auto simp: min_def)

lemma fallback_weekday:
  assumes "0 \<le> n" and "n \<le> 6"
  shows "weekday (d + (if (n - weekday d) mod 7 = 0 then 7 else (n - weekday d) mod 7)) = n"
proof -
  define w where "w = weekday d"
  define delta where "delta = (if (n - w) mod 7 = 0 then 7 else (n - w) mod 7)"
  have e: "delta mod 7 = (n - w) mod 7"
    by (simp add: delta_def)
  have "weekday (d + delta) = ((d + 6) + delta) mod 7"
    by (simp add: weekday_def algebra_simps)
  also have "\<dots> = ((d + 6) mod 7 + delta mod 7) mod 7"
    by (simp only: mod_add_eq)
  also have "\<dots> = (w + (n - w) mod 7) mod 7"
    by (simp only: e w_def weekday_def)
  also have "\<dots> = (w + (n - w)) mod 7"
    by (simp only: mod_add_right_eq)
  also have "\<dots> = n"
    using assms by simp
  finally show ?thesis
    by (simp only: delta_def w_def)
qed

text \<open>In a zone with a fixed offset the alarm's instant on a date lies on that date.\<close>

lemma local_date_combine_fixed:
  "time_ok a \<Longrightarrow> local_date (fixed_zone off) (combine (fixed_zone off) a d) = d"
proof -
  assume ok: "time_ok a"
  then have "0 \<le> time_of_day a \<and> time_of_day a < us_per_day"
    by (auto simp: time_ok_def time_of_day_def us_per_day_def)
  then have "(d * us_per_day + time_of_day a) div us_per_day = d"
    by (simp add: us_per_day_def)
  then show ?thesis
    by (simp add: local_date_def combine_def fixed_zone_def)
qed

text \<open>
  Whenever the scan finds a date, the result is later than \<open>now + 0.5s\<close>, on a weekday
  of \<open>repeat_days\<close> and not before \<open>start_date\<close>.
\<close>

lemma next_occurrence_scan_hit:
  assumes "zoneinfo (timezone a) = Some tz" and "time_ok a" and "enabled a"
    and "repeat_days a \<noteq> []"
    and "scan_week tz a now (local_date tz now)
           (case start_date a of Some d \<Rightarrow> d | None \<Rightarrow> local_date tz now) [0 ..< 7] = Some occ"
  shows "next_occurrence zoneinfo a now = Inr (Some occ) \<and> now + grace < occ
       \<and> (\<exists>d. occ = combine tz a d \<and> weekday d \<in> set (repeat_days a)
              \<and> (\<forall>sd. start_date a = Some sd \<longrightarrow> sd \<le> d))"
proof -
  from scan_week_sound [OF assms(5)] obtain off where
    "occ = combine tz a (local_date tz now + int off)"
    "(case start_date a of Some d \<Rightarrow> d | None \<Rightarrow> local_date tz now) \<le> local_date tz now + int off"
    "weekday (local_date tz now + int off) \<in> set (repeat_days a)" "now + grace < occ"
    by blast
  moreover have "next_occurrence zoneinfo a now = Inr (Some occ)"
    using assms by (simp add: next_occurrence_def Let_def)
  ultimately show ?thesis by auto
qed

text \<open>
  C1, as stated, fails for a disabled alarm: \<open>next_occurrence\<close> returns \<open>None\<close> before
  it looks at the time. The alarm is \<open>morning\<close> disabled, asked at 06:00 on 1 January
  2024.
\<close>

theorem next_occurrence_disabled_counterexample:
  "repeat_days (morning\<lparr>enabled := False\<rparr>) = []
   \<and> start_date (morning\<lparr>enabled := False\<rparr>) = None
   \<and> 738886 * us_per_day + 21600000000 + grace
       < combine utc (morning\<lparr>enabled := False\<rparr>)
           (local_date utc (738886 * us_per_day + 21600000000))
   \<and> next_occurrence utc_only (morning\<lparr>enabled := False\<rparr>)
         (738886 * us_per_day + 21600000000)
       \<noteq> Inr (Some (combine utc (morning\<lparr>enabled := False\<rparr>)
                  (local_date utc (738886 * us_per_day + 21600000000))))"
  by (simp add: utc_only_def utc_def morning_def calc_defs next_occurrence_def)

text \<open>
  C1, amended: for every enabled alarm with empty \<open>repeat_days\<close> and no \<open>start_date\<close>
  (in a zone the database knows), \<open>next_occurrence\<close> returns today's local alarm time
  converted to UTC when \<open>now + 0.5s\<close> is before it, and tomorrow's local alarm time
  converted to UTC when today's instant is at or before \<open>now + 0.5s\<close>.
\<close>

theorem next_occurrence_once_no_start_date:
  assumes "zoneinfo (timezone a) = Some tz" and "time_ok a" and "enabled a"
    and "repeat_days a = []" and "start_date a = None"
  shows "(now + grace < combine tz a (local_date tz now) \<longrightarrow>
            next_occurrence zoneinfo a now = Inr (Some (combine tz a (local_date tz now))))
       \<and> (combine tz a (local_date tz now) \<le> now + grace \<longrightarrow>
            next_occurrence zoneinfo a now
              = Inr (Some (combine tz a (local_date tz now + 1))))"
  using assms by (simp add: next_occurrence_def Let_def)

theorem next_occurrence_once_no_start_date_witness:
  "next_occurrence utc_only morning (738886 * us_per_day + 21600000000)
     = Inr (Some (738886 * us_per_day + 34200000000))
   \<and> next_occurrence utc_only morning (738886 * us_per_day + 36000000000)
     = Inr (Some (738887 * us_per_day + 34200000000))"
  using next_occurrence_once_no_start_date
          [of utc_only morning utc "738886 * us_per_day + 21600000000"]
        next_occurrence_once_no_start_date
          [of utc_only morning utc "738886 * us_per_day + 36000000000"]
  by (simp add: utc_only_def utc_def morning_def calc_defs)

text \<open>
  C2 fails on the code. When the seven-day scan finds nothing, the fallback returns the
  alarm's time on the next date of the smallest repeat day without comparing it with
  \<open>now + 0.5s\<close>. For the alarm \<open>midnight\<close> (Tuesdays at 00:00:00 UTC), asked on Monday
  1 January 2024 at 23:59:59.8, the scan turns down Tuesday's occurrence, 0.2s ahead,
  and the fallback returns that same instant.
\<close>

theorem next_occurrence_fallback_within_grace:
  "next_occurrence utc_only midnight (738886 * us_per_day + 86399800000)
     = Inr (Some (738887 * us_per_day))
   \<and> \<not> (738886 * us_per_day + 86399800000 + grace < 738887 * us_per_day)
   \<and> weekday (local_date utc (738887 * us_per_day)) \<in> set (repeat_days midnight)"
  by (simp add: utc_only_def utc_def midnight_def calc_defs next_occurrence_def upt_rec)

text \<open>
  C3 fails on the code. The scan visits the seven dates from today on and skips those
  before \<open>start_date\<close>; when \<open>start_date\<close> lies beyond them, the fallback returns a date
  within the coming week and does not look at \<open>start_date\<close>. For the alarm \<open>course\<close>
  (Mondays at 07:30 UTC, from 15 January 2024), asked on Monday 1 January 2024 at
  06:00, the result is 8 January, 07:30.
\<close>

theorem next_occurrence_fallback_before_start_date:
  "next_occurrence utc_only course (738886 * us_per_day + 21600000000)
     = Inr (Some (738893 * us_per_day + 27000000000))
   \<and> local_date utc (738893 * us_per_day + 27000000000) = 738893
   \<and> start_date course = Some 738900"
  by (simp add: utc_only_def utc_def course_def calc_defs next_occurrence_def upt_rec)

text \<open>
  C4: for every alarm with empty \<open>repeat_days\<close> and a \<open>start_date\<close> (in a zone the
  database knows), \<open>next_occurrence\<close> returns \<open>None\<close> when the \<open>start_date\<close> is before
  the current local date, and also when the alarm's instant on the \<open>start_date\<close> is at
  or before \<open>now + 0.5s\<close>: it does not move to the next day.
\<close>

theorem next_occurrence_once_start_date_passed:
  assumes "zoneinfo (timezone a) = Some tz" and "time_ok a"
    and "repeat_days a = []" and "start_date a = Some d"
    and "d < local_date tz now \<or> combine tz a d \<le> now + grace"
  shows "next_occurrence zoneinfo a now = Inr None"
  using assms by (auto simp add: next_occurrence_def Let_def)

theorem next_occurrence_once_start_date_passed_witness:
  "next_occurrence utc_only doctor (738887 * us_per_day + 28800000000) = Inr None
   \<and> next_occurrence utc_only doctor (738886 * us_per_day + 25200000000) = Inr None"
  using next_occurrence_once_start_date_passed
          [of utc_only doctor utc 738886 "738887 * us_per_day + 28800000000"]
        next_occurrence_once_start_date_passed
          [of utc_only doctor utc 738886 "738886 * us_per_day + 25200000000"]
  by (simp add: utc_only_def utc_def doctor_def calc_defs)

section \<open>Properties of encoding and decoding\<close>

lemma int_items_PInt: "int_items L (map PInt xs) = Inr xs"
  by (induction xs) (simp_all add: and_then_def)

text \<open>On a list without repetition and within range the loop appends every day.\<close>

lemma normalize_loop_distinct:
  "distinct (acc @ xs) \<Longrightarrow> list_all (\<lambda>d. 0 \<le> d \<and> d \<le> 6) xs \<Longrightarrow>
     normalize_loop xs acc = Inr (acc @ xs)"
  by (induction xs arbitrary: acc) auto

text \<open>Normalisation leaves a normalised tuple as it is.\<close>

lemma normalize_days_id:
  "sorted xs \<Longrightarrow> distinct xs \<Longrightarrow> list_all (\<lambda>d. 0 \<le> d \<and> d \<le> 6) xs \<Longrightarrow>
     normalize_days xs = Inr xs"
  using normalize_loop_distinct [of "[]" xs]
  by (simp add: normalize_days_def and_then_def sort_key_id_if_sorted)

lemma update_fresh: "k \<notin> fst ` set al \<Longrightarrow> AList.update k v al = al @ [(k, v)]"
  by (induction al) auto

lemma str_items_fold:
  "distinct (map fst acc @ map fst ex) \<Longrightarrow>
     fold (\<lambda>kv acc. AList.update (fst kv) (py_str L (snd kv)) acc)
          (map (\<lambda>kv. (fst kv, PStr (snd kv))) ex) acc = acc @ ex"
proof (induction ex arbitrary: acc)
  case Nil
  then show ?case by simp
next
  case (Cons kv ex)
  from Cons.prems have fresh: "fst kv \<notin> fst ` set acc" by auto
  from Cons.prems have "distinct (map fst (acc @ [kv]) @ map fst ex)" by auto
  then have "fold (\<lambda>kv acc. AList.update (fst kv) (py_str L (snd kv)) acc)
          (map (\<lambda>kv. (fst kv, PStr (snd kv))) ex) (acc @ [kv]) = (acc @ [kv]) @ ex"
    by (rule Cons.IH)
  with fresh show ?case by (simp add: update_fresh)
qed

lemma str_items_id:
  "distinct (map fst ex) \<Longrightarrow> str_items L (map (\<lambda>kv. (fst kv, PStr (snd kv))) ex) = ex"
  using str_items_fold [of "[]" ex L] by (simp add: str_items_def)

lemma MusicSettings_roundtrip:
  "distinct (map fst (extra m)) \<Longrightarrow>
     MusicSettings_from_dict L (MusicSettings_to_dict m) = Inr m"
  by (cases "resource m")
     (simp_all add: MusicSettings_from_dict_def MusicSettings_to_dict_def get_def
        and_then_def str_items_id)

text \<open>The constructor establishes \<open>valid_alarm\<close>, up to the well-formedness of \<open>extra\<close>.\<close>

lemma normalize_loop_props:
  "normalize_loop xs acc = Inr ys \<Longrightarrow> distinct acc \<Longrightarrow>
     list_all (\<lambda>d. 0 \<le> d \<and> d \<le> 6) acc \<Longrightarrow>
     distinct ys \<and> list_all (\<lambda>d. 0 \<le> d \<and> d \<le> 6) ys"
  by (induction xs arbitrary: acc) (auto split: if_splits)

lemma post_init_valid:
  assumes "post_init raw = Inr a" and "distinct (map fst (extra (music raw)))"
  shows "valid_alarm a"
proof -
  from assms(1) obtain days where
    days: "normalize_days (repeat_days raw) = Inr days"
    and a: "a = raw\<lparr>repeat_days := days,
                    label := (if label raw = [] then alarm_id raw else label raw)\<rparr>"
    and ok: "alarm_id raw \<noteq> []" "time_ok raw" "0 < volume raw"
    by (auto simp: post_init_def and_then_def split: if_splits sum.splits)
  have "sorted days \<and> distinct days \<and> list_all (\<lambda>d. 0 \<le> d \<and> d \<le> 6) days"
  proof (cases "repeat_days raw = []")
    case True
    with days show ?thesis by (simp add: normalize_days_def)
  next
    case False
    with days obtain ys where ys: "normalize_loop (repeat_days raw) [] = Inr ys"
      and "days = sort ys"
      by (auto simp: normalize_days_def and_then_def split: sum.splits)
    with normalize_loop_props [OF ys] show ?thesis
      by (simp add: list_all_iff)
  qed
  with a ok assms(2) show ?thesis
    by (simp add: valid_alarm_def time_ok_def)
qed

text \<open>
  C5: for every valid \<open>Alarm\<close> value (the invariants of the constructor, an \<open>extra\<close>
  dict without a repeated key, and a \<open>start_date\<close>, if set, that the library's
  \<open>fromisoformat\<close> reads back from its non-empty \<open>isoformat\<close>), decoding the encoded
  record returns the alarm itself: every field is equal.
\<close>

theorem Alarm_roundtrip:
  assumes "valid_alarm a"
    and "\<forall>d. start_date a = Some d \<longrightarrow>
           isoformat L d \<noteq> [] \<and> fromisoformat L (isoformat L d) = Some d"
  shows "Alarm_from_dict L (Alarm_to_dict L a) = Inr a"
proof -
  have sd: "parse_start_date L (get (Alarm_to_dict L a) ''start_date'' PNone)
              = Inr (start_date a)"
    using assms(2)
    by (cases "start_date a")
       (simp_all add: parse_start_date_def get_def Alarm_to_dict_def)
  have mu: "MusicSettings_from_dict L (MusicSettings_to_dict (music a)) = Inr (music a)"
    using assms(1) by (simp add: MusicSettings_roundtrip valid_alarm_def)
  have nd: "normalize_days (repeat_days a) = Inr (repeat_days a)"
    using assms(1) by (simp add: normalize_days_id valid_alarm_def)
  have pi: "post_init a = Inr a"
    using assms(1) nd by (simp add: post_init_def valid_alarm_def and_then_def)
  have whole: "\<lparr>alarm_id = alarm_id a, label = label a, hour = hour a,
      minute = minute a, second = second a, timezone = timezone a,
      repeat_days = repeat_days a, start_date = start_date a,
      music = music a, enabled = enabled a, volume = volume a\<rparr> = a"
    by simp
  show ?thesis
    using sd mu pi
    by (simp add: Alarm_from_dict_def and_then_def get_def Alarm_to_dict_def
          int_items_PInt whole)
qed

theorem Alarm_roundtrip_witness:
  "valid_alarm radio \<and> start_date radio = Some 738886
   \<and> extra (music radio) \<noteq> []
   \<and> Alarm_from_dict stub_lib (Alarm_to_dict stub_lib radio) = Inr radio"
  using Alarm_roundtrip [of radio stub_lib]
  by (simp add: valid_alarm_def radio_def stub_lib_def time_ok_def)

text \<open>The defaults of \<open>MusicSettings.from_dict\<close>.\<close>

lemma MusicSettings_from_dict_defaults:
  assumes "MusicSettings_from_dict L md = Inr m"
  shows "(map_of md ''tone_frequency_hz'' = None \<longrightarrow> tone_frequency_hz m = 440)
       \<and> (map_of md ''tone_duration_seconds'' = None \<longrightarrow> tone_duration_seconds m = 30)
       \<and> (map_of md ''extra'' = None \<longrightarrow> extra m = [])
       \<and> (map_of md ''resource'' = None \<longrightarrow> resource m = None)"
  using assms
  by (auto simp: MusicSettings_from_dict_def and_then_def get_def str_items_def
        split: sum.splits)

lemma and_then_Inr: "and_then r f = Inr y \<longleftrightarrow> (\<exists>x. r = Inr x \<and> f x = Inr y)"
  by (cases r) (simp_all add: and_then_def)

lemma post_init_Inr:
  "post_init raw = Inr a \<Longrightarrow>
     \<exists>days. normalize_days (repeat_days raw) = Inr days
        \<and> a = raw\<lparr>repeat_days := days,
                   label := (if label raw = [] then alarm_id raw else label raw)\<rparr>"
  by (auto simp: post_init_def and_then_Inr split: if_splits)

text \<open>What a successful decoding says about the record and the alarm.\<close>

lemma Alarm_from_dict_Inr:
  assumes "Alarm_from_dict L payload = Inr a"
  obtains idv vs days md where
           "map_of payload ''id'' = Some idv"
           "py_iter (get payload ''repeat_days'' (PList [])) = Inr vs"
           "int_items L vs = Inr days"
           "normalize_days days = Inr (repeat_days a)"
           "py_dict (get payload ''music'' (PDict [])) = Inr md"
           "MusicSettings_from_dict L md = Inr (music a)"
           "py_int L (get payload ''second'' (PInt 0)) = Inr (second a)"
           "py_float L (get payload ''volume'' (PFloat 1)) = Inr (volume a)"
           "alarm_id a = py_str L idv"
           "label a = (if py_str L (get payload ''label'' idv) = [] then py_str L idv
                       else py_str L (get payload ''label'' idv))"
           "timezone a = py_str L (get payload ''timezone'' (PStr ''UTC''))"
           "enabled a = py_bool (get payload ''enabled'' (PBool True))"
proof -
  from assms obtain sd idv h mi se vs days md mu vol where
    f: "map_of payload ''id'' = Some idv"
       "py_int L (get payload ''second'' (PInt 0)) = Inr se"
       "py_iter (get payload ''repeat_days'' (PList [])) = Inr vs"
       "int_items L vs = Inr days"
       "py_dict (get payload ''music'' (PDict [])) = Inr md"
       "MusicSettings_from_dict L md = Inr mu"
       "py_float L (get payload ''volume'' (PFloat 1)) = Inr vol"
    and p: "post_init
            \<lparr>alarm_id = py_str L idv,
             label = py_str L (get payload ''label'' idv),
             hour = h, minute = mi, second = se,
             timezone = py_str L (get payload ''timezone'' (PStr ''UTC'')),
             repeat_days = days,
             start_date = sd,
             music = mu,
             enabled = py_bool (get payload ''enabled'' (PBool True)),
             volume = vol\<rparr> = Inr a"
    by (cases "map_of payload ''id''") (auto simp: Alarm_from_dict_def and_then_Inr)
  from post_init_Inr [OF p] obtain days' where
    "normalize_days days = Inr days'" and
    "a = \<lparr>alarm_id = py_str L idv,
             label = (if py_str L (get payload ''label'' idv) = [] then py_str L idv
                       else py_str L (get payload ''label'' idv)),
             hour = h, minute = mi, second = se,
             timezone = py_str L (get payload ''timezone'' (PStr ''UTC'')),
             repeat_days = days',
             start_date = sd,
             music = mu,
             enabled = py_bool (get payload ''enabled'' (PBool True)),
             volume = vol\<rparr>"
    by auto
  with f show thesis
    by (intro that [of idv vs days md]) simp_all
qed

text \<open>
  C9: whenever a record decodes, each absent field has its default in the decoded alarm:
  \<open>second\<close> 0, \<open>timezone\<close> UTC, \<open>repeat_days\<close> empty, \<open>enabled\<close> true, \<open>volume\<close> 1.0,
  \<open>label\<close> the id, and in the music settings (the dict under \<open>music\<close>, or the empty
  dict when that is absent) \<open>tone_frequency_hz\<close> 440 and \<open>tone_duration_seconds\<close> 30.
\<close>

theorem from_dict_defaults:
  assumes "Alarm_from_dict L payload = Inr a"
  shows "(map_of payload ''second'' = None \<longrightarrow> second a = 0)
       \<and> (map_of payload ''timezone'' = None \<longrightarrow> timezone a = ''UTC'')
       \<and> (map_of payload ''repeat_days'' = None \<longrightarrow> repeat_days a = [])
       \<and> (map_of payload ''enabled'' = None \<longrightarrow> enabled a)
       \<and> (map_of payload ''volume'' = None \<longrightarrow> volume a = 1)
       \<and> (map_of payload ''label'' = None \<longrightarrow> label a = alarm_id a)
       \<and> (\<forall>md. py_dict (get payload ''music'' (PDict [])) = Inr md \<longrightarrow>
             (map_of md ''tone_frequency_hz'' = None \<longrightarrow>
                tone_frequency_hz (music a) = 440)
           \<and> (map_of md ''tone_duration_seconds'' = None \<longrightarrow>
                tone_duration_seconds (music a) = 30))"
proof -
  from assms obtain idv vs days md0 where
    f: "map_of payload ''id'' = Some idv"
       "py_iter (get payload ''repeat_days'' (PList [])) = Inr vs"
       "int_items L vs = Inr days"
       "normalize_days days = Inr (repeat_days a)"
       "py_dict (get payload ''music'' (PDict [])) = Inr md0"
       "MusicSettings_from_dict L md0 = Inr (music a)"
       "py_int L (get payload ''second'' (PInt 0)) = Inr (second a)"
       "py_float L (get payload ''volume'' (PFloat 1)) = Inr (volume a)"
       "alarm_id a = py_str L idv"
       "label a = (if py_str L (get payload ''label'' idv) = [] then py_str L idv
                       else py_str L (get payload ''label'' idv))"
       "timezone a = py_str L (get payload ''timezone'' (PStr ''UTC''))"
       "enabled a = py_bool (get payload ''enabled'' (PBool True))"
    by (rule Alarm_from_dict_Inr)
  have c1: "map_of payload ''second'' = None \<longrightarrow> second a = 0"
    using f(7) by (auto simp: get_def)
  have c2: "map_of payload ''timezone'' = None \<longrightarrow> timezone a = ''UTC''"
    using f(11) by (auto simp: get_def)
  have c3: "map_of payload ''repeat_days'' = None \<longrightarrow> repeat_days a = []"
    using f(2,3,4) by (auto simp: get_def normalize_days_def)
  have c4: "map_of payload ''enabled'' = None \<longrightarrow> enabled a"
    using f(12) by (auto simp: get_def)
  have c5: "map_of payload ''volume'' = None \<longrightarrow> volume a = 1"
    using f(8) by (auto simp: get_def)
  have c6: "map_of payload ''label'' = None \<longrightarrow> label a = alarm_id a"
    using f(9,10) by (auto simp: get_def)
  have c7: "\<forall>md. py_dict (get payload ''music'' (PDict [])) = Inr md \<longrightarrow>
             (map_of md ''tone_frequency_hz'' = None \<longrightarrow>
                tone_frequency_hz (music a) = 440)
           \<and> (map_of md ''tone_duration_seconds'' = None \<longrightarrow>
                tone_duration_seconds (music a) = 30)"
    using f(5) MusicSettings_from_dict_defaults [OF f(6)] by simp
  from c1 c2 c3 c4 c5 c6 c7 show ?thesis by blast
qed

theorem from_dict_defaults_witness:
  "Alarm_from_dict stub_lib sparse_record = Inr nap
   \<and> second nap = 0 \<and> timezone nap = ''UTC'' \<and> repeat_days nap = [] \<and> enabled nap
   \<and> volume nap = 1 \<and> label nap = alarm_id nap
   \<and> tone_frequency_hz (music nap) = 440 \<and> tone_duration_seconds (music nap) = 30"
proof -
  have dec: "Alarm_from_dict stub_lib sparse_record = Inr nap"
    by (simp add: Alarm_from_dict_def MusicSettings_from_dict_def and_then_def get_def
          post_init_def normalize_days_def parse_start_date_def str_items_def time_ok_def
          sparse_record_def nap_def tone_def stub_lib_def)
  have music: "py_dict (get sparse_record ''music'' (PDict []))
                 = Inr [(''source'', PStr ''tone'')]"
    by (simp add: get_def sparse_record_def)
  have absent: "map_of sparse_record ''second'' = None"
    "map_of sparse_record ''timezone'' = None"
    "map_of sparse_record ''repeat_days'' = None"
    "map_of sparse_record ''enabled'' = None"
    "map_of sparse_record ''volume'' = None"
    "map_of sparse_record ''label'' = None"
    by (simp_all add: sparse_record_def)
  from from_dict_defaults [OF dec] music absent dec show ?thesis
    by simp
qed

section \<open>Properties of the scheduler\<close>

lemmas op_defs = add_alarm_def update_alarm_def remove_alarm_def enable_def disable_def
  save_def set_live_def set_enabled_def live_def create_task_def cancel_def reschedule_def


text \<open>
  C8: \<open>add_alarm\<close> with an id that is already a key of the live mapping raises the
  \<open>ValueError\<close> of the duplicate check and leaves the whole state as it was: the live
  mapping, the stored set and the number of calls of \<open>save\<close>.
\<close>

theorem add_alarm_duplicate:
  "alarm_id (objects s r) \<in> fst ` set (live s) \<Longrightarrow>
     add_alarm ok r s = (Some ValueError, s)"
  by (simp add: add_alarm_def)

theorem add_alarm_duplicate_witness:
  "alarm_id (objects waiting 0) \<in> fst ` set (live waiting)
   \<and> fst (add_alarm True 0 waiting) = Some ValueError
   \<and> live (snd (add_alarm True 0 waiting)) = [(''wake'', 0)]
   \<and> stored (snd (add_alarm True 0 waiting)) = [wake]
   \<and> save_calls (snd (add_alarm True 0 waiting)) = 1"
proof -
  have dup: "alarm_id (objects waiting 0) \<in> fst ` set (live waiting)"
    by (simp add: waiting_def wake_def live_def)
  from add_alarm_duplicate [OF dup, of True] dup show ?thesis
    by (simp add: waiting_def live_def)
qed




subsection \<open>The invariant of the two mappings\<close>










lemma spawn_enabled_frame:
  "objects (spawn_enabled rs s) = objects s \<and> dicts (spawn_enabled rs s) = dicts s
   \<and> alarms (spawn_enabled rs s) = alarms s \<and> next_dict (spawn_enabled rs s) = next_dict s
   \<and> started (spawn_enabled rs s) = started s \<and> stored (spawn_enabled rs s) = stored s
   \<and> save_calls (spawn_enabled rs s) = save_calls s"
  by (induction rs arbitrary: s) (simp_all add: create_task_def)














lemma init_inv: "sched_inv (init objs persisted)"
  by (simp add: sched_inv_def keys_agree_def task_inv_def init_def live_def)




subsection \<open>Snapshots\<close>

text \<open>
  No event writes to a dict other than the one \<open>self._alarms\<close> refers to, and new dicts
  get new addresses.
\<close>

lemma exec_frame:
  assumes "p < next_dict s" and "alarms s < next_dict s" and "alarms s \<noteq> p"
  shows "dicts (exec zi e s) p = dicts s p \<and> p < next_dict (exec zi e s)
       \<and> alarms (exec zi e s) < next_dict (exec zi e s) \<and> alarms (exec zi e s) \<noteq> p"
proof (cases e)
  case (Start loaded)
  with assms show ?thesis
    by (cases loaded) (auto simp: start_def spawn_enabled_frame)
next
  case (Timer now play_ok save_ok aid)
  with assms show ?thesis
    by (auto simp: run_alarm_def finish_def op_defs Let_def split: option.splits sum.splits)
qed (use assms in \<open>auto simp: op_defs stop_def trigger_now_def snapshot_def Let_def
       split: option.splits\<close>)

lemma run_frame:
  "p < next_dict s \<Longrightarrow> alarms s < next_dict s \<Longrightarrow> alarms s \<noteq> p \<Longrightarrow>
     dicts (run zi es s) p = dicts s p"
proof (induction es arbitrary: s)
  case Nil
  then show ?case by simp
next
  case (Cons e es)
  from exec_frame [OF Cons.prems, of zi e]
  have "dicts (run zi es (exec zi e s)) p = dicts (exec zi e s) p"
    by (intro Cons.IH) simp_all
  with exec_frame [OF Cons.prems, of zi e] show ?case by simp
qed

text \<open>
  C10: the dict returned by \<open>snapshot\<close> is a new object, so whatever happens afterwards
  (alarms added or removed, a restart) leaves its items, and with them its key set, as
  they were at the call. Its values are the live mapping's own \<open>Alarm\<close> objects: when
  the scheduler later disables or enables an alarm, or a timer task disables a one-shot
  alarm after it fired, the snapshot's entry refers to the object with the new value of
  \<open>enabled\<close>.
\<close>

theorem snapshot_shares_alarms:
  assumes "heap_ok s"
  shows "dicts (run zi es (snd (snapshot s))) (fst (snapshot s)) = live s
     \<and> (map_of (live s) aid = Some r \<and> enabled (objects s r) \<longrightarrow>
          map_of (dicts (snd (disable ok aid (snd (snapshot s)))) (fst (snapshot s))) aid
            = Some r
          \<and> \<not> enabled (objects (snd (disable ok aid (snd (snapshot s)))) r))
     \<and> (map_of (live s) aid = Some r \<and> \<not> enabled (objects s r) \<longrightarrow>
          map_of (dicts (snd (enable ok aid (snd (snapshot s)))) (fst (snapshot s))) aid
            = Some r
          \<and> enabled (objects (snd (enable ok aid (snd (snapshot s)))) r))
     \<and> (map_of (live s) aid = Some r \<and> enabled (objects s r)
          \<and> map_of (tasks s) aid = Some Running \<and> repeat_days (objects s r) = []
          \<and> next_occurrence zi (objects s r) now = Inr (Some t) \<longrightarrow>
          map_of (dicts (run_alarm zi now True ok aid (snd (snapshot s)))
                    (fst (snapshot s))) aid = Some r
          \<and> \<not> enabled (objects (run_alarm zi now True ok aid (snd (snapshot s))) r))"
proof -
  have frame: "dicts (run zi es (snd (snapshot s))) (fst (snapshot s)) = live s"
    using assms run_frame [of "next_dict s" "snd (snapshot s)" zi es]
    by (simp add: snapshot_def heap_ok_def)
  have live1: "live (snd (snapshot s)) = live s"
    by (simp add: snapshot_def live_def)
  have rest: "dicts (snd (snapshot s)) (fst (snapshot s)) = live s"
    "objects (snd (snapshot s)) = objects s" "tasks (snd (snapshot s)) = tasks s"
    "alarms (snd (snapshot s)) \<noteq> fst (snapshot s)"
    using assms by (simp_all add: snapshot_def heap_ok_def)
  show ?thesis
    using frame live1 rest
    by (auto simp: disable_def enable_def run_alarm_def save_def set_enabled_def
          create_task_def cancel_def finish_def Let_def)
qed

theorem snapshot_shares_alarms_witness:
  "heap_ok waiting
   \<and> live (run utc_only [RemoveAlarm True ''wake''] (snd (snapshot waiting))) = []
   \<and> dicts (run utc_only [RemoveAlarm True ''wake''] (snd (snapshot waiting)))
        (fst (snapshot waiting)) = [(''wake'', 0)]
   \<and> enabled (objects waiting 0)
   \<and> map_of (dicts (snd (disable True ''wake'' (snd (snapshot waiting))))
        (fst (snapshot waiting))) ''wake'' = Some 0
   \<and> \<not> enabled (objects (snd (disable True ''wake'' (snd (snapshot waiting)))) 0)
   \<and> \<not> enabled (objects (run_alarm utc_only (738886 * us_per_day + 36000000000) True True
         ''wake'' (snd (snapshot waiting))) 0)"
proof -
  have h: "heap_ok waiting"
    by (simp add: heap_ok_def waiting_def)
  have facts: "map_of (live waiting) ''wake'' = Some 0" "enabled (objects waiting 0)"
    "map_of (tasks waiting) ''wake'' = Some Running" "repeat_days (objects waiting 0) = []"
    "live waiting = [(''wake'', 0)]"
    by (simp_all add: waiting_def wake_def live_def)
  have nxt: "next_occurrence utc_only (objects waiting 0) (738886 * us_per_day + 36000000000)
               = Inr (Some (738886 * us_per_day + 36002000000))"
    by (simp add: waiting_def wake_def next_occurrence_def calc_defs utc_only_def utc_def)
  have gone: "live (run utc_only [RemoveAlarm True ''wake''] (snd (snapshot waiting))) = []"
    by (simp add: waiting_def snapshot_def op_defs Let_def)
  from snapshot_shares_alarms
         [OF h, of utc_only "[RemoveAlarm True ''wake'']" "''wake''" 0 True
            "738886 * us_per_day + 36000000000" "738886 * us_per_day + 36002000000"]
       h facts nxt gone
  show ?thesis by simp
qed

end
